theory Spec2Isabelle
  imports Complex_Main
begin

section \<open>JavaScript values at the adapter's untyped boundaries\<close>

text \<open>
  The tool arguments (\<open>request.params.arguments\<close>, typed \<open>any\<close>), the upstream reply
  (\<open>response.data\<close>) and the body of a failed upstream reply (\<open>error.response.data\<close>,
  typed \<open>any\<close>) are JSON-derived JavaScript values: the TypeScript interfaces of
  \<open>types.ts\<close> are erased at run time. A number is an IEEE double; the model keeps the
  finite ones as reals (both zeros are \<open>Finite 0\<close>) and the three special values apart.
  An object is its list of own properties, looked up by key.
\<close>

datatype jsnum = Finite real | PosInf | NegInf | NaN

datatype jsval =
    JUndefined
  | JNull
  | JBool bool
  | JNum jsnum
  | JStr string
  | JArr "jsval list"
  | JObj "(string \<times> jsval) list"

text \<open>The \<open>typeof\<close> operator.\<close>

fun typeof :: "jsval \<Rightarrow> string" where
  "typeof JUndefined = ''undefined''"
| "typeof JNull = ''object''"
| "typeof (JBool b) = ''boolean''"
| "typeof (JNum n) = ''number''"
| "typeof (JStr s) = ''string''"
| "typeof (JArr vs) = ''object''"
| "typeof (JObj kvs) = ''object''"

text \<open>
  Reading a property \<open>v.k\<close> of a value that is neither \<open>null\<close> nor \<open>undefined\<close>, for the
  property names the adapter reads (\<open>symbol\<close>, \<open>date\<close>, \<open>close\<close>, \<open>open\<close>, \<open>high\<close>,
  \<open>low\<close>, \<open>volume\<close>, \<open>from\<close>, \<open>message\<close>): none of them is defined on the prototypes of
  objects, arrays, strings, numbers or booleans, so only an object's own property
  gives a value and everything else gives \<open>undefined\<close>.
\<close>

fun js_prop :: "jsval \<Rightarrow> string \<Rightarrow> jsval" where
  "js_prop (JObj kvs) k = (case map_of kvs k of Some v \<Rightarrow> v | None \<Rightarrow> JUndefined)"
| "js_prop v k = JUndefined"

text \<open>The \<open>in\<close> operator on a non-null value of type object, for the same names.\<close>

fun has_prop :: "string \<Rightarrow> jsval \<Rightarrow> bool" where
  "has_prop k (JObj kvs) = (k \<in> fst ` set kvs)"
| "has_prop k v = False"

text \<open>Truthiness, as tested by \<open>if (date)\<close> and by \<open>from || ...\<close>.\<close>

fun truthy_num :: "jsnum \<Rightarrow> bool" where
  "truthy_num (Finite r) = (r \<noteq> 0)"
| "truthy_num NaN = False"
| "truthy_num PosInf = True"
| "truthy_num NegInf = True"

fun truthy :: "jsval \<Rightarrow> bool" where
  "truthy JUndefined = False"
| "truthy JNull = False"
| "truthy (JBool b) = b"
| "truthy (JNum n) = truthy_num n"
| "truthy (JStr s) = (s \<noteq> [])"
| "truthy (JArr vs) = True"
| "truthy (JObj kvs) = True"

text \<open>\<open>a || b\<close> and \<open>a ?? b\<close>.\<close>

definition js_or :: "jsval \<Rightarrow> jsval \<Rightarrow> jsval" where
  "js_or a b = (if truthy a then a else b)"

definition nullish :: "jsval \<Rightarrow> bool" where
  "nullish v \<longleftrightarrow> v = JUndefined \<or> v = JNull"

text \<open>
  String conversion inside a template literal. How a number prints is the
  engine's \<open>Number::toString\<close>, taken as the parameter \<open>ns\<close>; an array prints its
  elements joined by commas, \<open>null\<close> and \<open>undefined\<close> elements as nothing.
\<close>

fun join :: "string \<Rightarrow> string list \<Rightarrow> string" where
  "join sep [] = []"
| "join sep [s] = s"
| "join sep (s # t # ss) = s @ sep @ join sep (t # ss)"

fun js_to_string :: "(jsnum \<Rightarrow> string) \<Rightarrow> jsval \<Rightarrow> string" where
  "js_to_string ns JUndefined = ''undefined''"
| "js_to_string ns JNull = ''null''"
| "js_to_string ns (JBool b) = (if b then ''true'' else ''false'')"
| "js_to_string ns (JNum n) = ns n"
| "js_to_string ns (JStr s) = s"
| "js_to_string ns (JArr vs) =
     join '','' (map (\<lambda>v. if v = JUndefined \<or> v = JNull then [] else js_to_string ns v) vs)"
| "js_to_string ns (JObj kvs) = ''[object Object]''"

section \<open>Exceptions, protocol errors and the upstream client\<close>

text \<open>The codes of the protocol's \<open>ErrorCode\<close> that the adapter raises.\<close>

datatype ErrorCode = InvalidRequest | MethodNotFound | InvalidParams | InternalError

text \<open>
  An axios error carries the failed reply when the provider answered (\<open>error.response\<close>,
  of which the adapter reads \<open>data\<close>) and always its own \<open>message\<close>.
\<close>

record AxiosResponse =
  data :: jsval

record AxiosError =
  response :: "AxiosResponse option"
  message :: string

text \<open>
  What a handler can throw: a protocol error \<open>new McpError(code, message)\<close> with the two
  constructor arguments, an axios error (\<open>axios.isAxiosError\<close> holds of exactly these),
  the \<open>TypeError\<close> of reading a property of \<open>null\<close> or \<open>undefined\<close>, or any other value.
\<close>

datatype exn =
    McpError ErrorCode string
  | Axios AxiosError
  | TypeError
  | OtherError string

text \<open>Property access \<open>v.k\<close> on any value: \<open>null\<close> and \<open>undefined\<close> have no properties.\<close>

definition get_prop :: "jsval \<Rightarrow> string \<Rightarrow> exn + jsval" where
  "get_prop v k = (if nullish v then Inl TypeError else Inr (js_prop v k))"

datatype http_outcome = Resolved jsval | Rejected exn

section \<open>Data model (types.ts)\<close>

text \<open>
  \<open>StockData\<close>, with the fields holding whatever the upstream reply held. The field
  \<open>open\<close> is named \<open>open_price\<close> here; \<open>PolygonStockResponse\<close> is the reply as a
  \<open>jsval\<close>, read by property name.
\<close>

record StockData =
  symbol :: jsval
  price :: jsval
  open_price :: jsval
  high :: jsval
  low :: jsval
  volume :: jsval
  timestamp :: jsval

text \<open>
  The type guard \<open>isValidStockPriceArgs\<close>. The conjunction is evaluated left to right
  and stops at the first false conjunct, so \<open>in\<close> and the property reads only see a
  non-null value of type object.
\<close>

definition isValidStockPriceArgs :: "jsval \<Rightarrow> bool" where
  "isValidStockPriceArgs args \<longleftrightarrow>
     typeof args = ''object'' \<and>
     args \<noteq> JNull \<and>
     has_prop ''symbol'' args \<and>
     typeof (js_prop args ''symbol'') = ''string'' \<and>
     (js_prop args ''date'' = JUndefined \<or> typeof (js_prop args ''date'') = ''string'')"

section \<open>Configuration and environment\<close>

definition BASE_URL :: string where
  "BASE_URL = ''https://api.polygon.io/v1''"

definition DEFAULT_SYMBOL :: string where
  "DEFAULT_SYMBOL = ''AAPL''"

definition LAST_TRADE :: string where
  "LAST_TRADE = ''last/stocks''"

definition DAILY_OPEN_CLOSE :: string where
  "DAILY_OPEN_CLOSE = ''open-close''"

text \<open>
  What a handler takes from outside: \<open>now\<close> is the value of
  \<open>new Date().toISOString()\<close> at the call, \<open>upstream\<close> the provider's answer to a GET of
  a path under the base URL, \<open>stringify\<close> is \<open>JSON.stringify(_, null, 2)\<close> and \<open>num_str\<close>
  the printing of numbers.
\<close>

record env =
  now :: string
  upstream :: "string \<Rightarrow> http_outcome"
  stringify :: "StockData \<Rightarrow> string"
  num_str :: "jsnum \<Rightarrow> string"

text \<open>
  \<open>axiosInstance.get(endpoint)\<close>: one request is issued, recorded at the end of the log
  of requests, and the provider's outcome is what the awaited call gives.
\<close>

definition axios_get :: "env \<Rightarrow> string \<Rightarrow> string list \<Rightarrow> http_outcome \<times> string list" where
  "axios_get e endpoint calls = (upstream e endpoint, calls @ [endpoint])"

text \<open>
  \<open>error.response?.data.message ?? error.message\<close> inside the template literal: the
  optional chain stops at an absent \<open>response\<close> only, so a reply whose body is \<open>null\<close>
  or \<open>undefined\<close> makes the read of \<open>message\<close> throw.
\<close>

definition error_text :: "env \<Rightarrow> AxiosError \<Rightarrow> exn + string" where
  "error_text e err =
     (case response err of
        None \<Rightarrow> Inr (''Polygon API error: '' @ message err)
      | Some r \<Rightarrow>
          (case get_prop (data r) ''message'' of
             Inl ex \<Rightarrow> Inl ex
           | Inr m \<Rightarrow>
               Inr (''Polygon API error: '' @
                    (if nullish m then message err else js_to_string (num_str e) m))))"

section \<open>Resource handlers\<close>

record Resource =
  res_uri :: string
  res_name :: string
  res_mimeType :: string
  res_description :: string

definition listResources :: "string list \<Rightarrow> Resource list \<times> string list" where
  "listResources calls =
     ([\<lparr>res_uri = ''stock://'' @ DEFAULT_SYMBOL @ ''/current'',
        res_name = ''Current stock price for '' @ DEFAULT_SYMBOL,
        res_mimeType = ''application/json'',
        res_description = ''Real-time stock data including price, volume, and daily stats''\<rparr>],
      calls)"

text \<open>
  One entry of \<open>contents\<close>; its field \<open>text\<close> is named \<open>resource_text\<close>. The read
  handler is given \<open>request.params.uri\<close>.
\<close>

record ResourceContent =
  uri :: string
  mimeType :: string
  resource_text :: string

record ReadResourceResult =
  contents :: "ResourceContent list"

text \<open>The object literal of lines 108 to 116, built from \<open>response.data\<close>.\<close>

definition resourceStockData :: "env \<Rightarrow> jsval \<Rightarrow> exn + StockData" where
  "resourceStockData e d =
     (if nullish d then Inl TypeError
      else Inr \<lparr>symbol = js_prop d ''symbol'',
                price = js_prop d ''close'',
                open_price = js_prop d ''open'',
                high = js_prop d ''high'',
                low = js_prop d ''low'',
                volume = js_prop d ''volume'',
                timestamp = JStr (now e)\<rparr>)"

text \<open>The \<open>try\<close> block of the read handler, after the request has been issued.\<close>

definition resource_try :: "env \<Rightarrow> string \<Rightarrow> http_outcome \<Rightarrow> exn + ReadResourceResult" where
  "resource_try e u outcome =
     (case outcome of
        Rejected ex \<Rightarrow> Inl ex
      | Resolved d \<Rightarrow>
          (case resourceStockData e d of
             Inl ex \<Rightarrow> Inl ex
           | Inr stockData \<Rightarrow>
               Inr \<lparr>contents = [\<lparr>uri = u, mimeType = ''application/json'',
                                  resource_text = stringify e stockData\<rparr>]\<rparr>))"

text \<open>The \<open>catch\<close> block of the read handler: it always throws.\<close>

definition resource_catch :: "env \<Rightarrow> exn \<Rightarrow> exn" where
  "resource_catch e error =
     (case error of
        Axios err \<Rightarrow>
          (case error_text e err of
             Inl ex \<Rightarrow> ex
           | Inr t \<Rightarrow> McpError InternalError t)
      | _ \<Rightarrow> error)"

definition readResource ::
  "env \<Rightarrow> string \<Rightarrow> string list \<Rightarrow> (exn + ReadResourceResult) \<times> string list" where
  "readResource e request_uri calls =
     (let symbol = DEFAULT_SYMBOL in
      if request_uri \<noteq> ''stock://'' @ symbol @ ''/current'' then
        (Inl (McpError InvalidRequest (''Unknown resource: '' @ request_uri)), calls)
      else
        (case axios_get e (LAST_TRADE @ ''/'' @ symbol) calls of
           (outcome, calls') \<Rightarrow>
             (case resource_try e request_uri outcome of
                Inr r \<Rightarrow> (Inr r, calls')
              | Inl error \<Rightarrow> (Inl (resource_catch e error), calls'))))"

section \<open>Tool handlers\<close>

text \<open>The catalog of \<open>ListTools\<close>: the handler takes nothing from its request.\<close>

record PropertySchema =
  prop_type :: string
  prop_description :: string

record InputSchema =
  schema_type :: string
  properties :: "(string \<times> PropertySchema) list"
  required :: "string list"

record Tool =
  tool_name :: string
  tool_description :: string
  inputSchema :: InputSchema

definition listTools :: "string list \<Rightarrow> Tool list \<times> string list" where
  "listTools calls =
     ([\<lparr>tool_name = ''get_stock_price'',
        tool_description = ''Get stock price information for a specific symbol'',
        inputSchema =
          \<lparr>schema_type = ''object'',
           properties =
             [(''symbol'', \<lparr>prop_type = ''string'',
                            prop_description = ''Stock symbol (e.g., AAPL)''\<rparr>),
              (''date'', \<lparr>prop_type = ''string'',
                          prop_description =
                            ''Date in YYYY-MM-DD format (optional, defaults to latest)''\<rparr>)],
           required = [''symbol'', ''date'']\<rparr>\<rparr>],
      calls)"

record CallToolRequest =
  name :: string
  arguments :: jsval

text \<open>One entry of \<open>content\<close>, with its fields \<open>type\<close> and \<open>text\<close>.\<close>

record ToolContent =
  content_type :: string
  content_text :: string

record CallToolResult =
  content :: "ToolContent list"
  isError :: "bool option"

text \<open>
  Lines 183 to 187: the path requested, from the destructured \<open>symbol\<close> and \<open>date\<close>.
\<close>

definition tool_endpoint :: "env \<Rightarrow> jsval \<Rightarrow> string" where
  "tool_endpoint e args =
     (let symbol = js_prop args ''symbol''; date = js_prop args ''date'' in
      if truthy date then
        DAILY_OPEN_CLOSE @ ''/'' @ js_to_string (num_str e) symbol @ ''/'' @
          js_to_string (num_str e) date
      else LAST_TRADE @ ''/'' @ js_to_string (num_str e) symbol)"

text \<open>The object literal of lines 191 to 199, built from \<open>response.data\<close>.\<close>

definition toolStockData :: "env \<Rightarrow> jsval \<Rightarrow> exn + StockData" where
  "toolStockData e d =
     (if nullish d then Inl TypeError
      else Inr \<lparr>symbol = js_prop d ''symbol'',
                price = js_prop d ''close'',
                open_price = js_prop d ''open'',
                high = js_prop d ''high'',
                low = js_prop d ''low'',
                volume = js_prop d ''volume'',
                timestamp = js_or (js_prop d ''from'') (JStr (now e))\<rparr>)"

definition tool_try :: "env \<Rightarrow> http_outcome \<Rightarrow> exn + CallToolResult" where
  "tool_try e outcome =
     (case outcome of
        Rejected ex \<Rightarrow> Inl ex
      | Resolved d \<Rightarrow>
          (case toolStockData e d of
             Inl ex \<Rightarrow> Inl ex
           | Inr stockData \<Rightarrow>
               Inr \<lparr>content = [\<lparr>content_type = ''text'',
                                 content_text = stringify e stockData\<rparr>],
                    isError = None\<rparr>))"

text \<open>The \<open>catch\<close> block of the tool handler: an axios error is returned, not thrown.\<close>

definition tool_catch :: "env \<Rightarrow> exn \<Rightarrow> exn + CallToolResult" where
  "tool_catch e error =
     (case error of
        Axios err \<Rightarrow>
          (case error_text e err of
             Inl ex \<Rightarrow> Inl ex
           | Inr t \<Rightarrow>
               Inr \<lparr>content = [\<lparr>content_type = ''text'', content_text = t\<rparr>],
                    isError = Some True\<rparr>)
      | _ \<Rightarrow> Inl error)"

definition callTool ::
  "env \<Rightarrow> CallToolRequest \<Rightarrow> string list \<Rightarrow> (exn + CallToolResult) \<times> string list" where
  "callTool e request calls =
     (if name request \<noteq> ''get_stock_price'' then
        (Inl (McpError MethodNotFound (''Unknown tool: '' @ name request)), calls)
      else if \<not> isValidStockPriceArgs (arguments request) then
        (Inl (McpError InvalidParams ''Invalid stock price arguments''), calls)
      else
        (case axios_get e (tool_endpoint e (arguments request)) calls of
           (outcome, calls') \<Rightarrow>
             (case tool_try e outcome of
                Inr r \<Rightarrow> (Inr r, calls')
              | Inl error \<Rightarrow> (tool_catch e error, calls'))))"

section \<open>Sample environments\<close>

text \<open>
  A provider that gives the same outcome to every request, a clock reading, and
  stand-ins for the two printing functions of the engine: the fields joined by commas,
  every number as \<open>#\<close>.
\<close>

definition sample_num_str :: "jsnum \<Rightarrow> string" where
  "sample_num_str n = ''#''"

definition sample_stringify :: "StockData \<Rightarrow> string" where
  "sample_stringify sd =
     js_to_string sample_num_str
       (JArr [symbol sd, price sd, open_price sd, high sd, low sd, volume sd, timestamp sd])"

definition sample_env :: "http_outcome \<Rightarrow> env" where
  "sample_env outcome =
     \<lparr>now = ''2026-11-02T09:30:00.000Z'',
      upstream = (\<lambda>endpoint. outcome),
      stringify = sample_stringify,
      num_str = sample_num_str\<rparr>"

definition sample_quote :: "real \<Rightarrow> jsval \<Rightarrow> jsval" where
  "sample_quote c f =
     JObj [(''status'', JStr ''OK''), (''from'', f), (''symbol'', JStr ''AAPL''),
           (''open'', JNum (Finite 149)), (''high'', JNum (Finite 151)),
           (''low'', JNum (Finite 148)), (''close'', JNum (Finite c)),
           (''volume'', JNum (Finite 1000))]"

definition sample_failure :: "AxiosResponse option \<Rightarrow> http_outcome" where
  "sample_failure r = Rejected (Axios \<lparr>response = r, message = ''Request failed''\<rparr>)"

section \<open>How the handlers unfold\<close>

text \<open>The arguments the type guard accepts.\<close>

lemma isValid_iff:
  "isValidStockPriceArgs args \<longleftrightarrow>
     (\<exists>kvs s. args = JObj kvs \<and> map_of kvs ''symbol'' = Some (JStr s) \<and>
        (map_of kvs ''date'' = None \<or> map_of kvs ''date'' = Some JUndefined \<or>
         (\<exists>d. map_of kvs ''date'' = Some (JStr d))))"
proof (cases args)
  case (JObj kvs)
  have str: "typeof v = ''string'' \<longleftrightarrow> (\<exists>s. v = JStr s)" for v
    by (cases v) simp_all
  have inp: "''symbol'' \<in> fst ` set kvs \<longleftrightarrow> map_of kvs ''symbol'' \<noteq> None"
    by (simp add: map_of_eq_None_iff)
  show ?thesis
    unfolding isValidStockPriceArgs_def JObj
    by (cases "map_of kvs ''symbol''"; cases "map_of kvs ''date''")
       (auto simp: str inp)
qed (simp_all add: isValidStockPriceArgs_def)

text \<open>
  Past the two checks the tool handler issues its one request; the read handler does
  so on the one URI it serves.
\<close>

lemma callTool_valid:
  assumes "name req = ''get_stock_price''" and "isValidStockPriceArgs (arguments req)"
  shows "callTool e req calls =
           (case tool_try e (upstream e (tool_endpoint e (arguments req))) of
              Inr r \<Rightarrow> Inr r
            | Inl error \<Rightarrow> tool_catch e error,
            calls @ [tool_endpoint e (arguments req)])"
  using assms by (simp add: callTool_def axios_get_def split: sum.splits)

lemma readResource_match:
  "readResource e ''stock://AAPL/current'' calls =
     (case resource_try e ''stock://AAPL/current'' (upstream e ''last/stocks/AAPL'') of
        Inr r \<Rightarrow> Inr r
      | Inl error \<Rightarrow> Inl (resource_catch e error),
      calls @ [''last/stocks/AAPL''])"
  by (simp add: readResource_def axios_get_def DEFAULT_SYMBOL_def LAST_TRADE_def
           split: sum.splits)

lemma tool_endpoint_eq:
  assumes "js_prop args ''symbol'' = JStr s"
  shows "tool_endpoint e args =
           (if truthy (js_prop args ''date'')
            then ''open-close/'' @ s @ ''/'' @ js_to_string (num_str e) (js_prop args ''date'')
            else ''last/stocks/'' @ s)"
  using assms by (simp add: tool_endpoint_def LAST_TRADE_def DAILY_OPEN_CLOSE_def)

text \<open>Every normal return of a handler comes from one of its \<open>return\<close> statements.\<close>

lemma callTool_success_cases:
  assumes "callTool e req calls = (Inr r, calls')"
  shows "name req = ''get_stock_price'' \<and> isValidStockPriceArgs (arguments req) \<and>
         calls' = calls @ [tool_endpoint e (arguments req)] \<and>
         ((\<exists>d sd. upstream e (tool_endpoint e (arguments req)) = Resolved d \<and>
                  toolStockData e d = Inr sd \<and>
                  r = \<lparr>content = [\<lparr>content_type = ''text'',
                                     content_text = stringify e sd\<rparr>],
                       isError = None\<rparr>) \<or>
          (\<exists>err t. upstream e (tool_endpoint e (arguments req)) = Rejected (Axios err) \<and>
                   error_text e err = Inr t \<and>
                   r = \<lparr>content = [\<lparr>content_type = ''text'', content_text = t\<rparr>],
                        isError = Some True\<rparr>))"
proof -
  have n: "name req = ''get_stock_price''"
    using assms by (auto simp: callTool_def split: if_splits)
  have v: "isValidStockPriceArgs (arguments req)"
    using assms n by (auto simp: callTool_def split: if_splits)
  let ?ep = "tool_endpoint e (arguments req)"
  have eq: "(case tool_try e (upstream e ?ep) of Inr r \<Rightarrow> Inr r
             | Inl error \<Rightarrow> tool_catch e error) = Inr r"
    and c: "calls' = calls @ [?ep]"
    using assms callTool_valid [OF n v, of e calls] by simp_all
  show ?thesis
  proof (cases "upstream e ?ep")
    case (Resolved d)
    with eq show ?thesis using n v c
      by (auto simp: tool_try_def tool_catch_def toolStockData_def
               split: sum.splits if_splits exn.splits)
  next
    case (Rejected ex)
    with eq show ?thesis using n v c
      by (cases ex) (auto simp: tool_try_def tool_catch_def split: sum.splits)
  qed
qed

lemma readResource_success_cases:
  assumes "readResource e u calls = (Inr r, calls')"
  shows "u = ''stock://AAPL/current'' \<and> calls' = calls @ [''last/stocks/AAPL''] \<and>
         (\<exists>d sd. upstream e ''last/stocks/AAPL'' = Resolved d \<and>
                 resourceStockData e d = Inr sd \<and>
                 r = \<lparr>contents = [\<lparr>uri = u, mimeType = ''application/json'',
                                     resource_text = stringify e sd\<rparr>]\<rparr>)"
proof -
  have u: "u = ''stock://AAPL/current''"
    using assms unfolding readResource_def Let_def
    by (auto simp: DEFAULT_SYMBOL_def split: if_splits)
  have eq: "(case resource_try e u (upstream e ''last/stocks/AAPL'') of Inr r \<Rightarrow> Inr r
             | Inl error \<Rightarrow> Inl (resource_catch e error)) = Inr r"
    and c: "calls' = calls @ [''last/stocks/AAPL'']"
    using assms readResource_match [of e calls] unfolding u by simp_all
  show ?thesis
  proof (cases "upstream e ''last/stocks/AAPL''")
    case (Resolved d)
    with eq show ?thesis using u c
      by (auto simp: resource_try_def split: sum.splits)
  next
    case (Rejected ex)
    with eq show ?thesis
      by (auto simp: resource_try_def split: sum.splits)
  qed
qed

section \<open>Rejected requests\<close>

text \<open>
  C6. A read of any URI other than \<open>stock://AAPL/current\<close> (the default symbol being
  \<open>AAPL\<close>) fails with \<open>InvalidRequest\<close> and leaves the log of upstream requests as it
  was: the comparison is string equality, nothing is matched by pattern.
\<close>

theorem read_unknown_uri_rejected:
  assumes "u \<noteq> ''stock://'' @ DEFAULT_SYMBOL @ ''/current''"
  shows "DEFAULT_SYMBOL = ''AAPL'' \<and>
         readResource e u calls =
           (Inl (McpError InvalidRequest (''Unknown resource: '' @ u)), calls)"
  unfolding readResource_def Let_def using assms by (simp add: DEFAULT_SYMBOL_def)

theorem read_unknown_uri_rejected_witness:
  "readResource (sample_env (Resolved (sample_quote 150 JUndefined))) ''stock://MSFT/current'' []
     = (Inl (McpError InvalidRequest ''Unknown resource: stock://MSFT/current''), []) \<and>
   readResource (sample_env (Resolved (sample_quote 150 JUndefined))) ''stock://*/current'' []
     = (Inl (McpError InvalidRequest ''Unknown resource: stock://*/current''), [])"
proof -
  have a: "''stock://MSFT/current'' \<noteq> ''stock://'' @ DEFAULT_SYMBOL @ ''/current''"
    by (simp add: DEFAULT_SYMBOL_def)
  have b: "''stock://*/current'' \<noteq> ''stock://'' @ DEFAULT_SYMBOL @ ''/current''"
    by (simp add: DEFAULT_SYMBOL_def)
  show ?thesis
    using read_unknown_uri_rejected [OF a] read_unknown_uri_rejected [OF b] by simp
qed

text \<open>
  C5. A call of \<open>get_stock_price\<close> whose arguments are not an object with own
  properties (a primitive, \<open>null\<close>, an array), or lack \<open>symbol\<close>, or have a \<open>symbol\<close>
  that is not a string, or have a \<open>date\<close> that is neither \<open>undefined\<close> nor a string,
  fails with \<open>InvalidParams\<close> and issues no upstream request.
\<close>

theorem invalid_args_rejected:
  assumes "name req = ''get_stock_price''"
    and "(\<forall>kvs. arguments req \<noteq> JObj kvs) \<or>
         (\<exists>kvs. arguments req = JObj kvs \<and>
            (map_of kvs ''symbol'' = None \<or>
             (\<exists>v. map_of kvs ''symbol'' = Some v \<and> typeof v \<noteq> ''string'') \<or>
             (\<exists>v. map_of kvs ''date'' = Some v \<and> v \<noteq> JUndefined \<and> typeof v \<noteq> ''string'')))"
  shows "callTool e req calls =
           (Inl (McpError InvalidParams ''Invalid stock price arguments''), calls)"
proof -
  have "\<not> isValidStockPriceArgs (arguments req)"
    using assms(2) by (auto simp: isValid_iff)
  with assms(1) show ?thesis by (simp add: callTool_def)
qed

theorem invalid_args_rejected_witness:
  "callTool (sample_env (Resolved (sample_quote 150 JUndefined)))
     \<lparr>name = ''get_stock_price'', arguments = JStr ''AAPL''\<rparr> []
     = (Inl (McpError InvalidParams ''Invalid stock price arguments''), []) \<and>
   callTool (sample_env (Resolved (sample_quote 150 JUndefined)))
     \<lparr>name = ''get_stock_price'', arguments = JObj [(''date'', JStr ''2024-01-05'')]\<rparr> []
     = (Inl (McpError InvalidParams ''Invalid stock price arguments''), []) \<and>
   callTool (sample_env (Resolved (sample_quote 150 JUndefined)))
     \<lparr>name = ''get_stock_price'', arguments = JObj [(''symbol'', JNum (Finite 7))]\<rparr> []
     = (Inl (McpError InvalidParams ''Invalid stock price arguments''), []) \<and>
   callTool (sample_env (Resolved (sample_quote 150 JUndefined)))
     \<lparr>name = ''get_stock_price'',
      arguments = JObj [(''symbol'', JStr ''AAPL''), (''date'', JNull)]\<rparr> []
     = (Inl (McpError InvalidParams ''Invalid stock price arguments''), [])"
proof -
  let ?e = "sample_env (Resolved (sample_quote 150 JUndefined))"
  have 1: "callTool ?e \<lparr>name = ''get_stock_price'', arguments = JStr ''AAPL''\<rparr> []
             = (Inl (McpError InvalidParams ''Invalid stock price arguments''), [])"
    by (rule invalid_args_rejected) simp_all
  have 2: "callTool ?e
             \<lparr>name = ''get_stock_price'', arguments = JObj [(''date'', JStr ''2024-01-05'')]\<rparr> []
             = (Inl (McpError InvalidParams ''Invalid stock price arguments''), [])"
    by (rule invalid_args_rejected) simp_all
  have 3: "callTool ?e
             \<lparr>name = ''get_stock_price'', arguments = JObj [(''symbol'', JNum (Finite 7))]\<rparr> []
             = (Inl (McpError InvalidParams ''Invalid stock price arguments''), [])"
    by (rule invalid_args_rejected) simp_all
  have 4: "callTool ?e
             \<lparr>name = ''get_stock_price'',
              arguments = JObj [(''symbol'', JStr ''AAPL''), (''date'', JNull)]\<rparr> []
             = (Inl (McpError InvalidParams ''Invalid stock price arguments''), [])"
    by (rule invalid_args_rejected) simp_all
  from 1 2 3 4 show ?thesis by blast
qed

text \<open>
  C8, as claimed, fails: the type guard asks for a string \<open>symbol\<close> and nothing more,
  so the empty string passes it and the request \<open>last/stocks/\<close> is issued.
\<close>

theorem empty_symbol_counterexample:
  "isValidStockPriceArgs (JObj [(''symbol'', JStr [])]) \<and>
   callTool (sample_env (Resolved (sample_quote 150 JUndefined)))
     \<lparr>name = ''get_stock_price'', arguments = JObj [(''symbol'', JStr [])]\<rparr> []
     \<noteq> (Inl (McpError InvalidParams ''Invalid stock price arguments''), []) \<and>
   snd (callTool (sample_env (Resolved (sample_quote 150 JUndefined)))
     \<lparr>name = ''get_stock_price'', arguments = JObj [(''symbol'', JStr [])]\<rparr> [])
     = [''last/stocks/'']"
proof -
  have v: "isValidStockPriceArgs (JObj [(''symbol'', JStr [])])"
    by (simp add: isValidStockPriceArgs_def)
  have ep: "tool_endpoint e (JObj [(''symbol'', JStr [])]) = ''last/stocks/''" for e
    by (simp add: tool_endpoint_def LAST_TRADE_def)
  show ?thesis
    using v by (simp add: callTool_valid ep)
qed

text \<open>
  C8, amended. A call of \<open>get_stock_price\<close> whose \<open>symbol\<close> is the empty string, with
  \<open>date\<close> absent or a string, is accepted by the type guard: exactly one upstream
  request is issued, to \<open>last/stocks/\<close> when \<open>date\<close> is absent or empty and to
  \<open>open-close//{date}\<close> otherwise, and the call ends as the provider's outcome decides.
\<close>

theorem empty_symbol_accepted:
  assumes "name req = ''get_stock_price''"
    and "arguments req = JObj kvs"
    and "map_of kvs ''symbol'' = Some (JStr [])"
    and "map_of kvs ''date'' = None \<or> (\<exists>d. map_of kvs ''date'' = Some (JStr d))"
  shows "isValidStockPriceArgs (arguments req) \<and>
         callTool e req calls =
           (case tool_try e (upstream e (tool_endpoint e (arguments req))) of
              Inr r \<Rightarrow> Inr r
            | Inl error \<Rightarrow> tool_catch e error,
            calls @ [tool_endpoint e (arguments req)]) \<and>
         tool_endpoint e (arguments req) =
           (case map_of kvs ''date'' of
              None \<Rightarrow> ''last/stocks/''
            | Some v \<Rightarrow> if v = JStr [] then ''last/stocks/''
                        else ''open-close//'' @ js_to_string (num_str e) v)"
proof -
  have v: "isValidStockPriceArgs (arguments req)"
    using assms(2-4) by (auto simp: isValid_iff)
  have s: "js_prop (arguments req) ''symbol'' = JStr []"
    using assms(2,3) by simp
  have ep: "tool_endpoint e (arguments req) =
           (case map_of kvs ''date'' of
              None \<Rightarrow> ''last/stocks/''
            | Some v \<Rightarrow> if v = JStr [] then ''last/stocks/''
                        else ''open-close//'' @ js_to_string (num_str e) v)"
    using assms(2,4) tool_endpoint_eq [OF s, of e] by auto
  from v ep callTool_valid [OF assms(1) v] show ?thesis by simp
qed

theorem empty_symbol_accepted_witness:
  "isValidStockPriceArgs (JObj [(''symbol'', JStr [])]) \<and>
   callTool (sample_env (sample_failure None))
     \<lparr>name = ''get_stock_price'', arguments = JObj [(''symbol'', JStr [])]\<rparr> [] =
     (Inr \<lparr>content = [\<lparr>content_type = ''text'',
                         content_text = ''Polygon API error: Request failed''\<rparr>],
           isError = Some True\<rparr>,
      [''last/stocks/''])"
proof -
  let ?req = "\<lparr>name = ''get_stock_price'', arguments = JObj [(''symbol'', JStr [])]\<rparr>"
  have a: "name ?req = ''get_stock_price''" by simp
  have b: "arguments ?req = JObj [(''symbol'', JStr [])]" by simp
  have c: "map_of [(''symbol'', JStr [])] ''symbol'' = Some (JStr [])" by simp
  have d: "map_of [(''symbol'', JStr [])] ''date'' = None \<or>
           (\<exists>d. map_of [(''symbol'', JStr [])] ''date'' = Some (JStr d))" by simp
  show ?thesis
    using empty_symbol_accepted [OF a b c d, of "sample_env (sample_failure None)" "[]"]
    by (simp add: sample_env_def sample_failure_def tool_try_def tool_catch_def
                  error_text_def)
qed

section \<open>The request the tool issues\<close>

text \<open>
  C2, as claimed, fails: \<open>if (date)\<close> tests truthiness, so a \<open>date\<close> that is present
  but empty sends the request to the last-trade endpoint, not to open-close.
\<close>

theorem empty_date_counterexample:
  "isValidStockPriceArgs (JObj [(''symbol'', JStr ''AAPL''), (''date'', JStr [])]) \<and>
   has_prop ''date'' (JObj [(''symbol'', JStr ''AAPL''), (''date'', JStr [])]) \<and>
   snd (callTool (sample_env (Resolved (sample_quote 150 JUndefined)))
          \<lparr>name = ''get_stock_price'',
           arguments = JObj [(''symbol'', JStr ''AAPL''), (''date'', JStr [])]\<rparr> [])
     = [''last/stocks/AAPL'']"
proof -
  have v: "isValidStockPriceArgs (JObj [(''symbol'', JStr ''AAPL''), (''date'', JStr [])])"
    by (simp add: isValidStockPriceArgs_def)
  have ep: "tool_endpoint e (JObj [(''symbol'', JStr ''AAPL''), (''date'', JStr [])])
              = ''last/stocks/AAPL''" for e
    by (simp add: tool_endpoint_def LAST_TRADE_def)
  show ?thesis
    using v by (simp add: callTool_valid ep)
qed

text \<open>
  C2, amended. Every valid call of \<open>get_stock_price\<close> adds exactly one request to the
  log: to \<open>last/stocks/{symbol}\<close> when \<open>date\<close> is absent or the empty string, and to
  \<open>open-close/{symbol}/{date}\<close> when \<open>date\<close> is a non-empty string.
\<close>

theorem one_upstream_request:
  assumes "name req = ''get_stock_price''"
    and "isValidStockPriceArgs (arguments req)"
    and "js_prop (arguments req) ''symbol'' = JStr s"
  shows "(\<exists>endpoint. snd (callTool e req calls) = calls @ [endpoint]) \<and>
         (js_prop (arguments req) ''date'' = JUndefined \<or>
          js_prop (arguments req) ''date'' = JStr [] \<longrightarrow>
            snd (callTool e req calls) = calls @ [''last/stocks/'' @ s]) \<and>
         (\<forall>d. d \<noteq> [] \<and> js_prop (arguments req) ''date'' = JStr d \<longrightarrow>
            snd (callTool e req calls) = calls @ [''open-close/'' @ s @ ''/'' @ d])"
proof -
  have c: "snd (callTool e req calls) = calls @ [tool_endpoint e (arguments req)]"
    using callTool_valid [OF assms(1,2), of e calls] by simp
  have ep: "tool_endpoint e (arguments req) =
           (if truthy (js_prop (arguments req) ''date'')
            then ''open-close/'' @ s @ ''/'' @
                 js_to_string (num_str e) (js_prop (arguments req) ''date'')
            else ''last/stocks/'' @ s)"
    by (rule tool_endpoint_eq [OF assms(3)])
  show ?thesis
    unfolding c ep by auto
qed

theorem one_upstream_request_witness:
  "snd (callTool (sample_env (Resolved (sample_quote 150 JUndefined)))
          \<lparr>name = ''get_stock_price'', arguments = JObj [(''symbol'', JStr ''AAPL'')]\<rparr> [])
     = [''last/stocks/AAPL''] \<and>
   snd (callTool (sample_env (Resolved (sample_quote 150 JUndefined)))
          \<lparr>name = ''get_stock_price'',
           arguments = JObj [(''symbol'', JStr ''MSFT''), (''date'', JStr ''2024-01-05'')]\<rparr> [])
     = [''open-close/MSFT/2024-01-05'']"
proof -
  let ?e = "sample_env (Resolved (sample_quote 150 JUndefined))"
  let ?r1 = "\<lparr>name = ''get_stock_price'', arguments = JObj [(''symbol'', JStr ''AAPL'')]\<rparr>"
  let ?r2 = "\<lparr>name = ''get_stock_price'',
              arguments = JObj [(''symbol'', JStr ''MSFT''), (''date'', JStr ''2024-01-05'')]\<rparr>"
  have n1: "name ?r1 = ''get_stock_price''" and n2: "name ?r2 = ''get_stock_price''"
    by simp_all
  have v1: "isValidStockPriceArgs (arguments ?r1)"
    and v2: "isValidStockPriceArgs (arguments ?r2)"
    by (simp_all add: isValidStockPriceArgs_def)
  have s1: "js_prop (arguments ?r1) ''symbol'' = JStr ''AAPL''"
    and s2: "js_prop (arguments ?r2) ''symbol'' = JStr ''MSFT''"
    by simp_all
  have d1: "js_prop (arguments ?r1) ''date'' = JUndefined"
    and d2: "js_prop (arguments ?r2) ''date'' = JStr ''2024-01-05''"
    by simp_all
  have a: "snd (callTool ?e ?r1 []) = [''last/stocks/AAPL'']"
    using one_upstream_request [OF n1 v1 s1, of ?e "[]"] d1 by simp
  have b: "snd (callTool ?e ?r2 []) = [''open-close/MSFT/2024-01-05'']"
    using one_upstream_request [OF n2 v2 s2, of ?e "[]"] d2 by simp
  from a b show ?thesis by blast
qed

section \<open>The tool catalog\<close>

text \<open>
  C9. Listing the tools gives, whatever the log of requests, the same one-entry
  catalog and leaves the log unchanged: the tool \<open>get_stock_price\<close> with its
  description, and an input schema of type object with the two properties \<open>symbol\<close>
  and \<open>date\<close>, both of type string and both listed as required.
\<close>

theorem listTools_catalog:
  "\<exists>t. listTools calls = ([t], calls) \<and>
       fst (listTools calls) = fst (listTools calls') \<and>
       tool_name t = ''get_stock_price'' \<and>
       tool_description t = ''Get stock price information for a specific symbol'' \<and>
       schema_type (inputSchema t) = ''object'' \<and>
       map fst (properties (inputSchema t)) = [''symbol'', ''date''] \<and>
       map (prop_type \<circ> snd) (properties (inputSchema t)) = [''string'', ''string''] \<and>
       required (inputSchema t) = [''symbol'', ''date'']"
  by (simp add: listTools_def)

section \<open>The mapping of a reply to StockData\<close>

text \<open>
  C10. From one upstream reply, the \<open>StockData\<close> built by the read handler and the one
  built by the tool handler, even at different times, have the same \<open>symbol\<close>,
  \<open>price\<close>, \<open>open\<close>, \<open>high\<close>, \<open>low\<close> and \<open>volume\<close>: each is the reply's property
  of that name, \<open>price\<close> being \<open>close\<close>.
\<close>

theorem stock_data_paths_agree:
  assumes "resourceStockData e1 d = Inr a" and "toolStockData e2 d = Inr b"
  shows "symbol a = symbol b \<and> price a = price b \<and> open_price a = open_price b \<and>
         high a = high b \<and> low a = low b \<and> volume a = volume b \<and>
         symbol a = js_prop d ''symbol'' \<and> price a = js_prop d ''close'' \<and>
         open_price a = js_prop d ''open'' \<and> high a = js_prop d ''high'' \<and>
         low a = js_prop d ''low'' \<and> volume a = js_prop d ''volume''"
  using assms
  by (auto simp: resourceStockData_def toolStockData_def split: if_splits)

theorem stock_data_paths_agree_witness:
  "resourceStockData (sample_env (Resolved JNull)) (sample_quote (-3) (JStr ''2024-01-05'')) =
     Inr \<lparr>symbol = JStr ''AAPL'', price = JNum (Finite (-3)), open_price = JNum (Finite 149),
          high = JNum (Finite 151), low = JNum (Finite 148), volume = JNum (Finite 1000),
          timestamp = JStr ''2026-11-02T09:30:00.000Z''\<rparr> \<and>
   toolStockData (sample_env (Resolved JNull)) (sample_quote (-3) (JStr ''2024-01-05'')) =
     Inr \<lparr>symbol = JStr ''AAPL'', price = JNum (Finite (-3)), open_price = JNum (Finite 149),
          high = JNum (Finite 151), low = JNum (Finite 148), volume = JNum (Finite 1000),
          timestamp = JStr ''2024-01-05''\<rparr>"
proof -
  let ?e = "sample_env (Resolved JNull)"
  let ?d = "sample_quote (-3) (JStr ''2024-01-05'')"
  let ?a = "\<lparr>symbol = JStr ''AAPL'', price = JNum (Finite (-3)), open_price = JNum (Finite 149),
          high = JNum (Finite 151), low = JNum (Finite 148), volume = JNum (Finite 1000),
          timestamp = JStr ''2026-11-02T09:30:00.000Z''\<rparr>"
  let ?b = "\<lparr>symbol = JStr ''AAPL'', price = JNum (Finite (-3)), open_price = JNum (Finite 149),
          high = JNum (Finite 151), low = JNum (Finite 148), volume = JNum (Finite 1000),
          timestamp = JStr ''2024-01-05''\<rparr>"
  have a: "resourceStockData ?e ?d = Inr ?a"
    by (simp add: resourceStockData_def sample_quote_def sample_env_def nullish_def)
  have b: "toolStockData ?e ?d = Inr ?b"
    by (simp add: toolStockData_def sample_quote_def sample_env_def nullish_def js_or_def)
  show ?thesis
    using stock_data_paths_agree [OF a b] a b by simp
qed

text \<open>The two handlers on a sample environment whose provider answers \<open>q\<close>.\<close>

lemma sample_tool_call:
  assumes "\<not> nullish q"
  shows "callTool (sample_env (Resolved q))
           \<lparr>name = ''get_stock_price'', arguments = JObj [(''symbol'', JStr ''AAPL'')]\<rparr> [] =
         (Inr \<lparr>content =
                 [\<lparr>content_type = ''text'',
                   content_text = sample_stringify
                     \<lparr>symbol = js_prop q ''symbol'', price = js_prop q ''close'',
                      open_price = js_prop q ''open'', high = js_prop q ''high'',
                      low = js_prop q ''low'', volume = js_prop q ''volume'',
                      timestamp = js_or (js_prop q ''from'')
                                        (JStr ''2026-11-02T09:30:00.000Z'')\<rparr>\<rparr>],
               isError = None\<rparr>,
          [''last/stocks/AAPL''])"
proof -
  have v: "isValidStockPriceArgs (JObj [(''symbol'', JStr ''AAPL'')])"
    by (simp add: isValidStockPriceArgs_def)
  have ep: "tool_endpoint e (JObj [(''symbol'', JStr ''AAPL'')]) = ''last/stocks/AAPL''" for e
    by (simp add: tool_endpoint_def LAST_TRADE_def)
  show ?thesis
    using v assms
    by (simp add: callTool_valid ep sample_env_def tool_try_def toolStockData_def)
qed

lemma sample_read:
  assumes "\<not> nullish q"
  shows "readResource (sample_env (Resolved q)) ''stock://AAPL/current'' [] =
         (Inr \<lparr>contents =
                 [\<lparr>uri = ''stock://AAPL/current'', mimeType = ''application/json'',
                   resource_text = sample_stringify
                     \<lparr>symbol = js_prop q ''symbol'', price = js_prop q ''close'',
                      open_price = js_prop q ''open'', high = js_prop q ''high'',
                      low = js_prop q ''low'', volume = js_prop q ''volume'',
                      timestamp = JStr ''2026-11-02T09:30:00.000Z''\<rparr>\<rparr>]\<rparr>,
          [''last/stocks/AAPL''])"
  using assms
  by (simp add: readResource_match sample_env_def resource_try_def resourceStockData_def)

lemma sample_quote_props:
  "\<not> nullish (sample_quote c f)"
  "js_prop (sample_quote c f) ''close'' = JNum (Finite c)"
  "js_prop (sample_quote c f) ''from'' = f"
  "js_prop (sample_quote c f) ''symbol'' = JStr ''AAPL''"
  "js_prop (sample_quote c f) ''open'' = JNum (Finite 149)"
  "js_prop (sample_quote c f) ''high'' = JNum (Finite 151)"
  "js_prop (sample_quote c f) ''low'' = JNum (Finite 148)"
  "js_prop (sample_quote c f) ''volume'' = JNum (Finite 1000)"
  by (simp_all add: sample_quote_def nullish_def)

text \<open>
  C4. Whenever a lookup succeeds, on the tool (a normal return without the error flag)
  or on the resource, the text returned is the serialisation of a \<open>StockData\<close> whose
  \<open>price\<close> is the \<open>close\<close> property of the upstream reply, unchanged whatever its
  value is.
\<close>

theorem price_is_close:
  "(callTool e req calls = (Inr r, calls') \<and> isError r = None \<longrightarrow>
      (\<exists>d sd. upstream e (tool_endpoint e (arguments req)) = Resolved d \<and>
               toolStockData e d = Inr sd \<and>
               content r = [\<lparr>content_type = ''text'', content_text = stringify e sd\<rparr>] \<and>
               price sd = js_prop d ''close'')) \<and>
   (readResource e u calls = (Inr r', calls'') \<longrightarrow>
      (\<exists>d sd. upstream e ''last/stocks/AAPL'' = Resolved d \<and>
               resourceStockData e d = Inr sd \<and>
               contents r' = [\<lparr>uri = u, mimeType = ''application/json'',
                                resource_text = stringify e sd\<rparr>] \<and>
               price sd = js_prop d ''close''))"
proof (intro conjI impI)
  assume "callTool e req calls = (Inr r, calls') \<and> isError r = None"
  then have ok: "callTool e req calls = (Inr r, calls')" and noerr: "isError r = None"
    by simp_all
  from callTool_success_cases [OF ok] noerr
  obtain d sd where d: "upstream e (tool_endpoint e (arguments req)) = Resolved d"
    and sd: "toolStockData e d = Inr sd"
    and r: "r = \<lparr>content = [\<lparr>content_type = ''text'', content_text = stringify e sd\<rparr>],
                 isError = None\<rparr>"
    by auto
  from sd have "price sd = js_prop d ''close''"
    by (auto simp: toolStockData_def split: if_splits)
  with d sd r
  show "\<exists>d sd. upstream e (tool_endpoint e (arguments req)) = Resolved d \<and>
               toolStockData e d = Inr sd \<and>
               content r = [\<lparr>content_type = ''text'', content_text = stringify e sd\<rparr>] \<and>
               price sd = js_prop d ''close''"
    by auto
next
  assume ok: "readResource e u calls = (Inr r', calls'')"
  from readResource_success_cases [OF ok]
  obtain d sd where d: "upstream e ''last/stocks/AAPL'' = Resolved d"
    and sd: "resourceStockData e d = Inr sd"
    and r: "r' = \<lparr>contents = [\<lparr>uri = u, mimeType = ''application/json'',
                                 resource_text = stringify e sd\<rparr>]\<rparr>"
    by auto
  from sd have "price sd = js_prop d ''close''"
    by (auto simp: resourceStockData_def split: if_splits)
  with d sd r
  show "\<exists>d sd. upstream e ''last/stocks/AAPL'' = Resolved d \<and>
               resourceStockData e d = Inr sd \<and>
               contents r' = [\<lparr>uri = u, mimeType = ''application/json'',
                                resource_text = stringify e sd\<rparr>] \<and>
               price sd = js_prop d ''close''"
    by auto
qed

theorem price_is_close_witness:
  "(\<exists>r. callTool (sample_env (Resolved (sample_quote 0 JUndefined)))
           \<lparr>name = ''get_stock_price'', arguments = JObj [(''symbol'', JStr ''AAPL'')]\<rparr> []
           = (Inr r, [''last/stocks/AAPL'']) \<and> isError r = None) \<and>
   (\<exists>sd. toolStockData (sample_env (Resolved (sample_quote 0 JUndefined)))
            (sample_quote 0 JUndefined) = Inr sd \<and> price sd = JNum (Finite 0)) \<and>
   (\<exists>r. readResource (sample_env (Resolved (sample_quote (-3.5) JUndefined)))
           ''stock://AAPL/current'' [] = (Inr r, [''last/stocks/AAPL''])) \<and>
   (\<exists>sd. resourceStockData (sample_env (Resolved (sample_quote (-3.5) JUndefined)))
            (sample_quote (-3.5) JUndefined) = Inr sd \<and> price sd = JNum (Finite (-3.5)))"
proof -
  let ?q0 = "sample_quote 0 JUndefined" and ?q1 = "sample_quote (-3.5) JUndefined"
  let ?req = "\<lparr>name = ''get_stock_price'', arguments = JObj [(''symbol'', JStr ''AAPL'')]\<rparr>"
  obtain r0 where t: "callTool (sample_env (Resolved ?q0)) ?req [] = (Inr r0, [''last/stocks/AAPL''])"
    and n: "isError r0 = None"
    using sample_tool_call [OF sample_quote_props(1), of 0 JUndefined] by simp
  obtain r1 where
    r: "readResource (sample_env (Resolved ?q1)) ''stock://AAPL/current'' []
          = (Inr r1, [''last/stocks/AAPL''])"
    using sample_read [OF sample_quote_props(1), of "-3.5" JUndefined] by simp
  have up: "upstream (sample_env (Resolved q)) ep = Resolved q" for q ep
    by (simp add: sample_env_def)
  from price_is_close [where e = "sample_env (Resolved ?q0)" and req = ?req
                          and calls = "[]" and r = r0 and calls' = "[''last/stocks/AAPL'']",
                        THEN conjunct1]
       t n
  have a: "\<exists>sd. toolStockData (sample_env (Resolved ?q0)) ?q0 = Inr sd \<and>
                price sd = JNum (Finite 0)"
    by (auto simp: up sample_quote_props)
  from price_is_close [where e = "sample_env (Resolved ?q1)"
                          and u = "''stock://AAPL/current''" and calls = "[]" and r' = r1
                          and calls'' = "[''last/stocks/AAPL'']",
                        THEN conjunct2] r
  have b: "\<exists>sd. resourceStockData (sample_env (Resolved ?q1)) ?q1 = Inr sd \<and>
                price sd = JNum (Finite (-3.5))"
    by (auto simp: up sample_quote_props)
  from t n r a b show ?thesis by blast
qed

text \<open>
  C1, as claimed, fails on the resource: the read handler never reads \<open>from\<close>. With a
  reply whose \<open>from\<close> is \<open>2024-01-05\<close> the timestamp it returns is the clock's.
\<close>

theorem read_timestamp_counterexample:
  "js_prop (sample_quote 150 (JStr ''2024-01-05'')) ''from'' = JStr ''2024-01-05'' \<and>
   JStr ''2026-11-02T09:30:00.000Z'' \<noteq> js_prop (sample_quote 150 (JStr ''2024-01-05'')) ''from'' \<and>
   resourceStockData (sample_env (Resolved (sample_quote 150 (JStr ''2024-01-05''))))
       (sample_quote 150 (JStr ''2024-01-05'')) =
     Inr \<lparr>symbol = JStr ''AAPL'', price = JNum (Finite 150), open_price = JNum (Finite 149),
          high = JNum (Finite 151), low = JNum (Finite 148), volume = JNum (Finite 1000),
          timestamp = JStr ''2026-11-02T09:30:00.000Z''\<rparr> \<and>
   readResource (sample_env (Resolved (sample_quote 150 (JStr ''2024-01-05''))))
       ''stock://AAPL/current'' [] =
     (Inr \<lparr>contents =
             [\<lparr>uri = ''stock://AAPL/current'', mimeType = ''application/json'',
               resource_text = sample_stringify
                 \<lparr>symbol = JStr ''AAPL'', price = JNum (Finite 150),
                  open_price = JNum (Finite 149), high = JNum (Finite 151),
                  low = JNum (Finite 148), volume = JNum (Finite 1000),
                  timestamp = JStr ''2026-11-02T09:30:00.000Z''\<rparr>\<rparr>]\<rparr>,
      [''last/stocks/AAPL''])"
proof -
  let ?q = "sample_quote 150 (JStr ''2024-01-05'')"
  have a: "js_prop ?q ''from'' = JStr ''2024-01-05''"
    by (rule sample_quote_props)
  have b: "resourceStockData (sample_env (Resolved ?q)) ?q =
     Inr \<lparr>symbol = JStr ''AAPL'', price = JNum (Finite 150), open_price = JNum (Finite 149),
          high = JNum (Finite 151), low = JNum (Finite 148), volume = JNum (Finite 1000),
          timestamp = JStr ''2026-11-02T09:30:00.000Z''\<rparr>"
    by (simp add: resourceStockData_def sample_quote_props sample_env_def)
  have c: "readResource (sample_env (Resolved ?q)) ''stock://AAPL/current'' [] =
     (Inr \<lparr>contents =
             [\<lparr>uri = ''stock://AAPL/current'', mimeType = ''application/json'',
               resource_text = sample_stringify
                 \<lparr>symbol = JStr ''AAPL'', price = JNum (Finite 150),
                  open_price = JNum (Finite 149), high = JNum (Finite 151),
                  low = JNum (Finite 148), volume = JNum (Finite 1000),
                  timestamp = JStr ''2026-11-02T09:30:00.000Z''\<rparr>\<rparr>]\<rparr>,
      [''last/stocks/AAPL''])"
    using sample_read [OF sample_quote_props(1), of 150 "JStr ''2024-01-05''"]
    by (simp add: sample_quote_props)
  from a b c show ?thesis by simp
qed

text \<open>
  C1, amended. Whenever a \<open>get_stock_price\<close> lookup succeeds, the timestamp of its
  \<open>StockData\<close> is the reply's \<open>from\<close> when that is a non-empty string, and the clock's
  ISO string at the call when \<open>from\<close> is absent, \<open>null\<close> or the empty string. Whenever
  a read of the resource succeeds, the timestamp is the clock's ISO string at the call,
  whatever \<open>from\<close> is.
\<close>

theorem timestamp_of_lookup:
  "(callTool e req calls = (Inr r, calls') \<and> isError r = None \<longrightarrow>
      (\<exists>d sd. upstream e (tool_endpoint e (arguments req)) = Resolved d \<and>
               toolStockData e d = Inr sd \<and>
               content r = [\<lparr>content_type = ''text'', content_text = stringify e sd\<rparr>] \<and>
               (\<forall>s. s \<noteq> [] \<and> js_prop d ''from'' = JStr s \<longrightarrow> timestamp sd = JStr s) \<and>
               (js_prop d ''from'' = JUndefined \<or> js_prop d ''from'' = JNull \<or>
                js_prop d ''from'' = JStr [] \<longrightarrow> timestamp sd = JStr (now e)))) \<and>
   (readResource e u calls = (Inr r', calls'') \<longrightarrow>
      (\<exists>d sd. upstream e ''last/stocks/AAPL'' = Resolved d \<and>
               resourceStockData e d = Inr sd \<and>
               contents r' = [\<lparr>uri = u, mimeType = ''application/json'',
                                resource_text = stringify e sd\<rparr>] \<and>
               timestamp sd = JStr (now e)))"
proof (intro conjI impI)
  assume "callTool e req calls = (Inr r, calls') \<and> isError r = None"
  then have ok: "callTool e req calls = (Inr r, calls')" and noerr: "isError r = None"
    by simp_all
  from callTool_success_cases [OF ok] noerr
  obtain d sd where d: "upstream e (tool_endpoint e (arguments req)) = Resolved d"
    and sd: "toolStockData e d = Inr sd"
    and r: "content r = [\<lparr>content_type = ''text'', content_text = stringify e sd\<rparr>]"
    by auto
  from sd have ts: "timestamp sd = js_or (js_prop d ''from'') (JStr (now e))"
    by (auto simp: toolStockData_def split: if_splits)
  have "\<forall>s. s \<noteq> [] \<and> js_prop d ''from'' = JStr s \<longrightarrow> timestamp sd = JStr s"
    by (simp add: ts js_or_def)
  moreover have "js_prop d ''from'' = JUndefined \<or> js_prop d ''from'' = JNull \<or>
                 js_prop d ''from'' = JStr [] \<longrightarrow> timestamp sd = JStr (now e)"
    by (auto simp: ts js_or_def)
  ultimately
  show "\<exists>d sd. upstream e (tool_endpoint e (arguments req)) = Resolved d \<and>
               toolStockData e d = Inr sd \<and>
               content r = [\<lparr>content_type = ''text'', content_text = stringify e sd\<rparr>] \<and>
               (\<forall>s. s \<noteq> [] \<and> js_prop d ''from'' = JStr s \<longrightarrow> timestamp sd = JStr s) \<and>
               (js_prop d ''from'' = JUndefined \<or> js_prop d ''from'' = JNull \<or>
                js_prop d ''from'' = JStr [] \<longrightarrow> timestamp sd = JStr (now e))"
    using d sd r by blast
next
  assume ok: "readResource e u calls = (Inr r', calls'')"
  from readResource_success_cases [OF ok]
  obtain d sd where d: "upstream e ''last/stocks/AAPL'' = Resolved d"
    and sd: "resourceStockData e d = Inr sd"
    and r: "r' = \<lparr>contents = [\<lparr>uri = u, mimeType = ''application/json'',
                                 resource_text = stringify e sd\<rparr>]\<rparr>"
    by auto
  from sd have "timestamp sd = JStr (now e)"
    by (auto simp: resourceStockData_def split: if_splits)
  with d sd r
  show "\<exists>d sd. upstream e ''last/stocks/AAPL'' = Resolved d \<and>
               resourceStockData e d = Inr sd \<and>
               contents r' = [\<lparr>uri = u, mimeType = ''application/json'',
                                resource_text = stringify e sd\<rparr>] \<and>
               timestamp sd = JStr (now e)"
    by auto
qed

theorem timestamp_of_lookup_witness:
  "(\<exists>sd. toolStockData (sample_env (Resolved (sample_quote 150 (JStr ''2024-01-05''))))
            (sample_quote 150 (JStr ''2024-01-05'')) = Inr sd \<and>
         timestamp sd = JStr ''2024-01-05'') \<and>
   (\<exists>sd. toolStockData (sample_env (Resolved (sample_quote 150 JUndefined)))
            (sample_quote 150 JUndefined) = Inr sd \<and>
         timestamp sd = JStr ''2026-11-02T09:30:00.000Z'') \<and>
   (\<exists>sd. resourceStockData (sample_env (Resolved (sample_quote 150 (JStr ''2024-01-05''))))
            (sample_quote 150 (JStr ''2024-01-05'')) = Inr sd \<and>
         timestamp sd = JStr ''2026-11-02T09:30:00.000Z'')"
proof -
  let ?q0 = "sample_quote 150 (JStr ''2024-01-05'')" and ?q1 = "sample_quote 150 JUndefined"
  let ?req = "\<lparr>name = ''get_stock_price'', arguments = JObj [(''symbol'', JStr ''AAPL'')]\<rparr>"
  obtain r0 where t0: "callTool (sample_env (Resolved ?q0)) ?req [] = (Inr r0, [''last/stocks/AAPL''])"
    and n0: "isError r0 = None"
    using sample_tool_call [OF sample_quote_props(1), of 150 "JStr ''2024-01-05''"] by simp
  obtain r1 where t1: "callTool (sample_env (Resolved ?q1)) ?req [] = (Inr r1, [''last/stocks/AAPL''])"
    and n1: "isError r1 = None"
    using sample_tool_call [OF sample_quote_props(1), of 150 JUndefined] by simp
  obtain r2 where
    r: "readResource (sample_env (Resolved ?q0)) ''stock://AAPL/current'' []
          = (Inr r2, [''last/stocks/AAPL''])"
    using sample_read [OF sample_quote_props(1), of 150 "JStr ''2024-01-05''"] by simp
  have up: "upstream (sample_env (Resolved q)) ep = Resolved q" for q ep
    by (simp add: sample_env_def)
  have nw: "now (sample_env out) = ''2026-11-02T09:30:00.000Z''" for out
    by (simp add: sample_env_def)
  from timestamp_of_lookup [where e = "sample_env (Resolved ?q0)" and req = ?req
                          and calls = "[]" and r = r0 and calls' = "[''last/stocks/AAPL'']",
                        THEN conjunct1] t0 n0
  have a: "\<exists>sd. toolStockData (sample_env (Resolved ?q0)) ?q0 = Inr sd \<and>
                timestamp sd = JStr ''2024-01-05''"
    by (auto simp: up sample_quote_props)
  from timestamp_of_lookup [where e = "sample_env (Resolved ?q1)" and req = ?req
                          and calls = "[]" and r = r1 and calls' = "[''last/stocks/AAPL'']",
                        THEN conjunct1] t1 n1
  have b: "\<exists>sd. toolStockData (sample_env (Resolved ?q1)) ?q1 = Inr sd \<and>
                timestamp sd = JStr ''2026-11-02T09:30:00.000Z''"
    by (auto simp: up nw sample_quote_props)
  from timestamp_of_lookup [where e = "sample_env (Resolved ?q0)"
                          and u = "''stock://AAPL/current''" and calls = "[]" and r' = r2
                          and calls'' = "[''last/stocks/AAPL'']",
                        THEN conjunct2] r
  have c: "\<exists>sd. resourceStockData (sample_env (Resolved ?q0)) ?q0 = Inr sd \<and>
                timestamp sd = JStr ''2026-11-02T09:30:00.000Z''"
    by (auto simp: up nw sample_quote_props)
  from a b c show ?thesis by blast
qed

section \<open>Upstream failures\<close>

text \<open>
  The text built from an axios error: the provider's \<open>message\<close> when there is one, the
  error's own otherwise. It is built when the error has no reply or a reply whose body
  is neither \<open>null\<close> nor \<open>undefined\<close>; with such a body the read of \<open>message\<close> throws.
\<close>

lemma error_text_eq:
  assumes "response err = None \<or> (\<exists>r. response err = Some r \<and> \<not> nullish (data r))"
  shows "error_text e err =
           Inr (''Polygon API error: '' @
                (case response err of
                   None \<Rightarrow> message err
                 | Some r \<Rightarrow>
                     if nullish (js_prop (data r) ''message'') then message err
                     else js_to_string (num_str e) (js_prop (data r) ''message'')))"
  using assms by (auto simp: error_text_def get_prop_def)

lemma error_text_throws:
  assumes "response err = Some r" and "nullish (data r)"
  shows "error_text e err = Inl TypeError"
  using assms by (simp add: error_text_def get_prop_def)

text \<open>
  With the text built, the tool returns it in a content entry with the error flag and
  the read handler throws it as \<open>InternalError\<close>; an exception that is not an axios
  error leaves either handler as it came.
\<close>

lemma tool_transport_error_reported:
  assumes "name req = ''get_stock_price''" and "isValidStockPriceArgs (arguments req)"
    and "upstream e (tool_endpoint e (arguments req)) = Rejected (Axios err)"
    and "response err = None \<or> (\<exists>r. response err = Some r \<and> \<not> nullish (data r))"
  shows "callTool e req calls =
           (Inr \<lparr>content =
                   [\<lparr>content_type = ''text'',
                     content_text = ''Polygon API error: '' @
                       (case response err of
                          None \<Rightarrow> message err
                        | Some r \<Rightarrow>
                            if nullish (js_prop (data r) ''message'') then message err
                            else js_to_string (num_str e) (js_prop (data r) ''message''))\<rparr>],
                 isError = Some True\<rparr>,
            calls @ [tool_endpoint e (arguments req)])"
  using assms(3) error_text_eq [OF assms(4), of e]
  by (simp add: callTool_valid [OF assms(1,2)] tool_try_def tool_catch_def)

lemma read_transport_error_raised:
  assumes "upstream e ''last/stocks/AAPL'' = Rejected (Axios err)"
    and "response err = None \<or> (\<exists>r. response err = Some r \<and> \<not> nullish (data r))"
  shows "readResource e ''stock://AAPL/current'' calls =
           (Inl (McpError InternalError
                  (''Polygon API error: '' @
                     (case response err of
                        None \<Rightarrow> message err
                      | Some r \<Rightarrow>
                          if nullish (js_prop (data r) ''message'') then message err
                          else js_to_string (num_str e) (js_prop (data r) ''message'')))),
            calls @ [''last/stocks/AAPL''])"
  using assms(1) error_text_eq [OF assms(2), of e]
  by (simp add: readResource_match resource_try_def resource_catch_def)

lemma other_exception_propagates:
  assumes "upstream e ''last/stocks/AAPL'' = Rejected ex" and "\<forall>err. ex \<noteq> Axios err"
  shows "readResource e ''stock://AAPL/current'' calls = (Inl ex, calls @ [''last/stocks/AAPL''])"
  using assms
  by (cases ex) (simp_all add: readResource_match resource_try_def resource_catch_def)

lemma tool_other_exception_propagates:
  assumes "name req = ''get_stock_price''" and "isValidStockPriceArgs (arguments req)"
    and "upstream e (tool_endpoint e (arguments req)) = Rejected ex"
    and "\<forall>err. ex \<noteq> Axios err"
  shows "callTool e req calls = (Inl ex, calls @ [tool_endpoint e (arguments req)])"
  using assms(3,4)
  by (cases ex) (simp_all add: callTool_valid [OF assms(1,2)] tool_try_def tool_catch_def)

text \<open>
  The provider answers a tool call with the body \<open>{message: "rate limited"}\<close>.
\<close>

lemma rate_limited_scenario:
  "callTool (sample_env (sample_failure (Some \<lparr>data = JObj [(''message'', JStr ''rate limited'')]\<rparr>)))
     \<lparr>name = ''get_stock_price'', arguments = JObj [(''symbol'', JStr ''AAPL'')]\<rparr> [] =
   (Inr \<lparr>content = [\<lparr>content_type = ''text'',
                       content_text = ''Polygon API error: rate limited''\<rparr>],
         isError = Some True\<rparr>,
    [''last/stocks/AAPL''])"
proof -
  let ?req = "\<lparr>name = ''get_stock_price'', arguments = JObj [(''symbol'', JStr ''AAPL'')]\<rparr>"
  let ?err = "\<lparr>response = Some \<lparr>data = JObj [(''message'', JStr ''rate limited'')]\<rparr>,
              message = ''Request failed''\<rparr>"
  let ?e = "sample_env (Rejected (Axios ?err))"
  have n: "name ?req = ''get_stock_price''" by simp
  have v: "isValidStockPriceArgs (arguments ?req)"
    by (simp add: isValidStockPriceArgs_def)
  have u: "upstream ?e (tool_endpoint ?e (arguments ?req)) = Rejected (Axios ?err)"
    by (simp add: sample_env_def)
  have b: "response ?err = None \<or> (\<exists>r. response ?err = Some r \<and> \<not> nullish (data r))"
    by (simp add: nullish_def)
  have ep: "tool_endpoint e (JObj [(''symbol'', JStr ''AAPL'')]) = ''last/stocks/AAPL''" for e
    by (simp add: tool_endpoint_def LAST_TRADE_def)
  show ?thesis
    using tool_transport_error_reported [OF n v u b, of "[]"]
    by (simp add: ep sample_failure_def nullish_def)
qed

text \<open>
  C3 says that a tool call whose upstream request fails with a transport error returns
  normally, with the text \<open>Polygon API error: ...\<close> and the error flag. When the failed
  reply has the body \<open>null\<close>, the handler throws a \<open>TypeError\<close> from its \<open>catch\<close> block
  instead, after its one request.
\<close>

theorem tool_error_null_body_throws:
  "callTool (sample_env (sample_failure (Some \<lparr>data = JNull\<rparr>)))
     \<lparr>name = ''get_stock_price'', arguments = JObj [(''symbol'', JStr ''AAPL'')]\<rparr> [] =
   (Inl TypeError, [''last/stocks/AAPL''])"
proof -
  have v: "isValidStockPriceArgs (JObj [(''symbol'', JStr ''AAPL'')])"
    by (simp add: isValidStockPriceArgs_def)
  have ep: "tool_endpoint e (JObj [(''symbol'', JStr ''AAPL'')]) = ''last/stocks/AAPL''" for e
    by (simp add: tool_endpoint_def LAST_TRADE_def)
  have t: "error_text e \<lparr>response = Some \<lparr>data = JNull\<rparr>, message = ''Request failed''\<rparr>
             = Inl TypeError" for e
    by (rule error_text_throws [of _ "\<lparr>data = JNull\<rparr>"]) (simp_all add: nullish_def)
  show ?thesis
    using v
    by (simp add: callTool_valid ep sample_env_def sample_failure_def tool_try_def
                  tool_catch_def t)
qed

text \<open>
  C7 says that a read of the resource whose upstream request fails with a transport
  error fails with \<open>InternalError\<close> carrying the upstream's message. When the failed
  reply has the body \<open>null\<close>, what the handler throws is a \<open>TypeError\<close>.
\<close>

theorem read_error_null_body_throws:
  "readResource (sample_env (sample_failure (Some \<lparr>data = JNull\<rparr>)))
     ''stock://AAPL/current'' [] =
   (Inl TypeError, [''last/stocks/AAPL''])"
proof -
  have t: "error_text e \<lparr>response = Some \<lparr>data = JNull\<rparr>, message = ''Request failed''\<rparr>
             = Inl TypeError" for e
    by (rule error_text_throws [of _ "\<lparr>data = JNull\<rparr>"]) (simp_all add: nullish_def)
  show ?thesis
    by (simp add: readResource_match sample_env_def sample_failure_def resource_try_def
                  resource_catch_def t)
qed

end
